theory Spec2Isabelle
  imports Complex_Main
begin

section \<open>JavaScript values\<close>

text \<open>
  The application is client-side JavaScript. Form fields hold \<open>null\<close>, numbers (a
  database numeric, or the default radius 5) or strings (whatever an input element
  delivers), and the code tests them by truthiness. Numbers are modelled as reals; a
  NaN is never stored in a field by the code modelled here.
\<close>

datatype jsval = JUndefined | JNull | JBool bool | JNum real | JStr string

fun truthy :: "jsval \<Rightarrow> bool" where
  "truthy JUndefined = False"
| "truthy JNull = False"
| "truthy (JBool b) = b"
| "truthy (JNum r) = (r \<noteq> 0)"
| "truthy (JStr s) = (s \<noteq> [])"

text \<open>A nullable text column: \<open>null\<close> or a string; the empty string is falsy too.\<close>

fun truthy_text :: "string option \<Rightarrow> bool" where
  "truthy_text None = False"
| "truthy_text (Some s) = (s \<noteq> [])"

text \<open>
  Strings are held as the bytes of their UTF-8 encoding. \<open>String.prototype.trim\<close> drops
  white space and line terminators at both ends: the code points U+0009 to U+000D, U+0020,
  U+00A0, U+1680, U+2000 to U+200A, U+2028, U+2029, U+202F, U+205F, U+3000 and U+FEFF,
  listed here by their encodings.
\<close>

definition white_space :: "string list" where
  "white_space =
     [[CHR 0x09], [CHR 0x0A], [CHR 0x0B], [CHR 0x0C], [CHR 0x0D], [CHR 0x20],
      [CHR 0xC2, CHR 0xA0],
      [CHR 0xE1, CHR 0x9A, CHR 0x80],
      [CHR 0xE2, CHR 0x80, CHR 0x80], [CHR 0xE2, CHR 0x80, CHR 0x81],
      [CHR 0xE2, CHR 0x80, CHR 0x82], [CHR 0xE2, CHR 0x80, CHR 0x83],
      [CHR 0xE2, CHR 0x80, CHR 0x84], [CHR 0xE2, CHR 0x80, CHR 0x85],
      [CHR 0xE2, CHR 0x80, CHR 0x86], [CHR 0xE2, CHR 0x80, CHR 0x87],
      [CHR 0xE2, CHR 0x80, CHR 0x88], [CHR 0xE2, CHR 0x80, CHR 0x89],
      [CHR 0xE2, CHR 0x80, CHR 0x8A],
      [CHR 0xE2, CHR 0x80, CHR 0xA8], [CHR 0xE2, CHR 0x80, CHR 0xA9],
      [CHR 0xE2, CHR 0x80, CHR 0xAF],
      [CHR 0xE2, CHR 0x81, CHR 0x9F],
      [CHR 0xE3, CHR 0x80, CHR 0x80],
      [CHR 0xEF, CHR 0xBB, CHR 0xBF]]"

definition starts_with :: "string \<Rightarrow> string \<Rightarrow> bool" where
  "starts_with s w = (take (length w) s = w)"

text \<open>
  \<open>strip ws s\<close> drops from the front of \<open>s\<close> every leading sequence of \<open>ws\<close>, as long as
  there is one (the sequences of \<open>white_space\<close> are all non-empty).
\<close>

function strip :: "string list \<Rightarrow> string \<Rightarrow> string" where
  "strip ws s =
     (case find (\<lambda>w. w \<noteq> [] \<and> starts_with s w) ws of
        None \<Rightarrow> s
      | Some w \<Rightarrow> strip ws (drop (length w) s))"
  by pat_completeness auto
termination
proof (relation "measure (\<lambda>(ws, s). length s)")
  show "wf (measure (\<lambda>(ws, s). length s))" by simp
next
  fix ws :: "string list" and s w :: string
  assume "find (\<lambda>w. w \<noteq> [] \<and> starts_with s w) ws = Some w"
  then have w: "w \<noteq> []" "take (length w) s = w"
    by (auto simp: find_Some_iff starts_with_def)
  then have "s \<noteq> []" by auto
  with w show "((ws, drop (length w) s), (ws, s)) \<in> measure (\<lambda>(ws, s). length s)"
    by simp
qed

definition trim :: "string \<Rightarrow> string" where
  "trim s = rev (strip (map rev white_space) (rev (strip white_space s)))"

section \<open>The map page (components/MapView.js)\<close>

subsection \<open>Rows of the hosted storage\<close>

record auth_user =
  user_ident :: string
  user_email :: string

record profile =
  profile_id :: string
  profile_email :: string
  role :: string

record sighting =
  sighting_id :: string
  s_latitude :: string
  s_longitude :: string
  s_notes :: string
  behaviour :: string
  photo_url :: "string option"
  user_id :: string
  visibility :: string
  created_at :: nat

record deletion_log =
  log_sighting_id :: string
  log_user_id :: string
  reason :: string

text \<open>
  The columns of a sanctuary that the map selects:
  \<open>id, name, latitude, longitude, radius_km, boundary, logo_url\<close>. The radius is a
  nullable numeric column, the boundary a nullable text column holding a GeoJSON text.
\<close>

record zone =
  zone_id :: string
  zone_name :: string
  zone_latitude :: real
  zone_longitude :: real
  zone_radius_km :: "real option"
  zone_boundary :: "string option"
  zone_logo_url :: "string option"

record sanctuary_row =
  columns :: zone
  approved :: bool

record marker =
  marker_id :: string
  marker_name :: string
  lat :: real
  lng :: real
  logo :: "string option"

subsection \<open>Requests issued to the storage\<close>

datatype request =
    DeletionLogsInsert deletion_log
  | SightingsDelete string

text \<open>
  The state of the page together with the storage it talks to: the React state
  (\<open>user\<close>, \<open>sightings\<close>, \<open>zones\<close>, \<open>sanctuaries\<close>), the alerts shown, the tables,
  and the requests issued so far, in order.
\<close>

record mapview =
  user :: "auth_user option"
  sightings :: "sighting list"
  zones :: "zone list"
  sanctuaries :: "marker list"
  alerts :: "string list"
  tbl_sightings :: "sighting list"
  tbl_deletion_logs :: "deletion_log list"
  tbl_sanctuaries :: "sanctuary_row list"
  tbl_profiles :: "profile list"
  issued :: "request list"

definition MapView :: "sighting list \<Rightarrow> deletion_log list \<Rightarrow> sanctuary_row list \<Rightarrow> profile list \<Rightarrow> mapview" where
  "MapView ss ls zs ps =
     \<lparr> user = None, sightings = [], zones = [], sanctuaries = [], alerts = [],
       tbl_sightings = ss, tbl_deletion_logs = ls, tbl_sanctuaries = zs,
       tbl_profiles = ps, issued = [] \<rparr>"

text \<open>
  A storage call answers with data or with an error; the client library returns the error
  in the answer and does not throw. Whether a call fails is decided outside the program,
  so each handler takes the error of each call it awaits (\<open>None\<close>: the call succeeded).
\<close>

definition deletion_logs_insert :: "string option \<Rightarrow> deletion_log \<Rightarrow> mapview \<Rightarrow> mapview" where
  "deletion_logs_insert err row w =
     (let w' = w\<lparr>issued := issued w @ [DeletionLogsInsert row]\<rparr>
      in if err = None then w'\<lparr>tbl_deletion_logs := tbl_deletion_logs w' @ [row]\<rparr> else w')"

definition sightings_delete :: "string option \<Rightarrow> string \<Rightarrow> mapview \<Rightarrow> mapview" where
  "sightings_delete err i w =
     (let w' = w\<lparr>issued := issued w @ [SightingsDelete i]\<rparr>
      in if err = None
         then w'\<lparr>tbl_sightings := filter (\<lambda>row. sighting_id row \<noteq> i) (tbl_sightings w')\<rparr>
         else w')"

definition alert :: "string \<Rightarrow> mapview \<Rightarrow> mapview" where
  "alert msg w = w\<lparr>alerts := alerts w @ [msg]\<rparr>"

subsection \<open>Deleting a sighting\<close>

text \<open>
  \<open>handleDelete\<close> of components/MapView.js. \<open>prompt\<close> is what \<open>window.prompt\<close> returns
  (\<open>None\<close>: the dialog was cancelled). The answers of the two awaited calls are not
  looked at.
\<close>

definition handleDelete :: "string option \<Rightarrow> string option \<Rightarrow> string option \<Rightarrow> sighting \<Rightarrow> mapview \<Rightarrow> mapview" where
  "handleDelete prompt log_err del_err s w =
     (case user w of
        None \<Rightarrow> alert ''Log in first'' w
      | Some u \<Rightarrow>
          (case prompt of
             None \<Rightarrow> w
           | Some rsn \<Rightarrow>
               if rsn = [] then w
               else
                 let w1 = deletion_logs_insert log_err
                            \<lparr> log_sighting_id = sighting_id s, log_user_id = user_ident u,
                              reason = rsn \<rparr> w;
                     w2 = sightings_delete del_err (sighting_id s) w1
                 in w2\<lparr>sightings := filter (\<lambda>row. sighting_id row \<noteq> sighting_id s) (sightings w2)\<rparr>))"

text \<open>
  \<open>handleDelete\<close> of the earlier revision of the same component (the copy without
  visibility and sanctuaries): the reason is trimmed, and each answer is checked before the
  next step.
\<close>

definition handleDelete_rev1 :: "string option \<Rightarrow> string option \<Rightarrow> string option \<Rightarrow> sighting \<Rightarrow> mapview \<Rightarrow> mapview" where
  "handleDelete_rev1 prompt log_err del_err s w =
     (case user w of
        None \<Rightarrow> alert ''You must be logged in to delete a sighting.'' w
      | Some u \<Rightarrow>
          (case prompt of
             None \<Rightarrow> alert ''Deletion cancelled: reason is required.'' w
           | Some rsn \<Rightarrow>
               if rsn = [] \<or> trim rsn = [] then alert ''Deletion cancelled: reason is required.'' w
               else
                 let w1 = deletion_logs_insert log_err
                            \<lparr> log_sighting_id = sighting_id s, log_user_id = user_ident u,
                              reason = trim rsn \<rparr> w
                 in if log_err \<noteq> None then alert ''Failed to log deletion. Aborting.'' w1
                    else
                      let w2 = sightings_delete del_err (sighting_id s) w1
                      in if del_err \<noteq> None then alert ''Failed to delete sighting. Try again.'' w2
                         else w2\<lparr>sightings := filter (\<lambda>row. sighting_id row \<noteq> sighting_id s) (sightings w2)\<rparr>))"

text \<open>The Delete button of a sighting's popup is rendered under \<open>user && s.user_id === user.id\<close>.\<close>

definition canDelete :: "sighting \<Rightarrow> auth_user option \<Rightarrow> bool" where
  "canDelete s viewer = (case viewer of None \<Rightarrow> False | Some u \<Rightarrow> user_id s = user_ident u)"

subsection \<open>The initial fetch\<close>

text \<open>
  The effect run once when the component is mounted. \<open>me\<close> is the user the identity
  service reports. The sightings query is
  \<open>from('sightings').select('*').order('created_at', {ascending: false})\<close>: it has
  no filter. The sanctuaries query selects the zone columns under
  \<open>.eq('approved', true)\<close>. A failed query answers with \<open>data = null\<close>, and the state is
  then left as it was.
\<close>

definition select_sightings :: "string option \<Rightarrow> mapview \<Rightarrow> sighting list option" where
  "select_sightings err w =
     (if err = None then Some (rev (sort_key created_at (tbl_sightings w))) else None)"

definition select_approved :: "string option \<Rightarrow> mapview \<Rightarrow> zone list option" where
  "select_approved err w =
     (if err = None then Some (map columns (filter (\<lambda>r. approved r = True) (tbl_sanctuaries w)))
      else None)"

definition to_marker :: "zone \<Rightarrow> marker" where
  "to_marker z =
     \<lparr> marker_id = zone_id z, marker_name = zone_name z, lat = zone_latitude z,
       lng = zone_longitude z, logo = zone_logo_url z \<rparr>"

definition initial_fetch :: "auth_user option \<Rightarrow> string option \<Rightarrow> string option \<Rightarrow> mapview \<Rightarrow> mapview" where
  "initial_fetch me s_err z_err w =
     (let w1 = (case me of None \<Rightarrow> w | Some u \<Rightarrow> w\<lparr>user := Some u\<rparr>);
          w2 = (case select_sightings s_err w1 of None \<Rightarrow> w1 | Some sData \<Rightarrow> w1\<lparr>sightings := sData\<rparr>)
      in case select_approved z_err w2 of
           None \<Rightarrow> w2
         | Some zData \<Rightarrow> w2\<lparr>zones := zData, sanctuaries := map to_marker zData\<rparr>)"

subsection \<open>Rendering\<close>









section \<open>The sanctuary form (components/SanctuaryForm.js)\<close>

subsection \<open>Opening hours\<close>

record day_hours =
  open_time :: string
  close_time :: string
  closed :: bool

text \<open>
  The form keeps one \<open>{open, close, closed}\<close> object per weekday under the keys
  \<open>mon\<close> .. \<open>sun\<close>; submitting replaces the field by the compact object of strings.
\<close>

datatype hours_value =
    HoursObj "string \<rightharpoonup> day_hours"
  | HoursCompact "string \<rightharpoonup> string"

definition DAYS :: "string list" where
  "DAYS = [''Mon'', ''Tue'', ''Wed'', ''Thu'', ''Fri'', ''Sat'', ''Sun'']"

definition lower_char :: "char \<Rightarrow> char" where
  "lower_char c =
     (let n = (of_char c :: nat) in if 65 \<le> n \<and> n \<le> 90 then char_of (n + 32) else c)"

definition toLowerCase :: "string \<Rightarrow> string" where
  "toLowerCase s = map lower_char s"

definition def_hours :: day_hours where
  "def_hours = \<lparr> open_time = ''09:00'', close_time = ''17:00'', closed = False \<rparr>"

text \<open>\<open>s.split(sep)\<close> for a one-character separator; \<open>''.split('-')\<close> is \<open>['']\<close>.\<close>

fun split_on :: "char \<Rightarrow> string \<Rightarrow> string list" where
  "split_on sep [] = [[]]"
| "split_on sep (c # cs) =
     (if c = sep then [] # split_on sep cs
      else (case split_on sep cs of
              [] \<Rightarrow> [[c]]
            | p # ps \<Rightarrow> (c # p) # ps))"

text \<open>
  The stored value handed to \<open>toHoursObj\<close>: absent (\<open>null\<close>, \<open>undefined\<close>), a string
  (parsed with \<open>JSON.parse\<close>), or an object. \<open>JSON.parse\<close> is a parameter giving the
  object parsed, \<open>None\<close> when it throws or yields \<open>null\<close> (reading a key then throws; both
  are caught by the \<open>try\<close>).
\<close>

datatype raw_hours =
    RawAbsent
  | RawText string
  | RawObject "string \<rightharpoonup> jsval"

text \<open>
  The body of the \<open>forEach\<close> for the key \<open>k\<close>. When the string has a \<open>-\<close> the split has
  at least two parts, so the last case of the destructuring is never taken
  (lemma \<open>split_on_two\<close>).
\<close>

definition day_entry :: "(string \<Rightarrow> (string \<rightharpoonup> jsval) option) \<Rightarrow> raw_hours \<Rightarrow> string \<Rightarrow> day_hours" where
  "day_entry JSON_parse raw k =
     (case (case raw of
              RawAbsent \<Rightarrow> None
            | RawText t \<Rightarrow> if t = [] then None else JSON_parse t
            | RawObject j \<Rightarrow> Some j) of
        None \<Rightarrow> def_hours
      | Some j \<Rightarrow>
          (case j k of
             Some (JStr v) \<Rightarrow>
               if v = ''closed'' then def_hours\<lparr>closed := True\<rparr>
               else if CHR ''-'' \<in> set v then
                 (case split_on (CHR ''-'') v of
                    p # c # rest \<Rightarrow> \<lparr> open_time = p, close_time = c, closed = False \<rparr>
                  | _ \<Rightarrow> def_hours)
               else def_hours
           | _ \<Rightarrow> def_hours))"

fun toHoursObj_loop :: "(string \<Rightarrow> (string \<rightharpoonup> jsval) option) \<Rightarrow> raw_hours \<Rightarrow> string list \<Rightarrow> (string \<rightharpoonup> day_hours) \<Rightarrow> (string \<rightharpoonup> day_hours)" where
  "toHoursObj_loop JSON_parse raw [] out = out"
| "toHoursObj_loop JSON_parse raw (d # ds) out =
     (let k = toLowerCase d
      in toHoursObj_loop JSON_parse raw ds (out(k \<mapsto> day_entry JSON_parse raw k)))"

definition toHoursObj :: "(string \<Rightarrow> (string \<rightharpoonup> jsval) option) \<Rightarrow> raw_hours \<Rightarrow> (string \<rightharpoonup> day_hours)" where
  "toHoursObj JSON_parse raw = toHoursObj_loop JSON_parse raw DAYS Map.empty"

text \<open>
  The conversion done at submission: \<open>hrs[k] = h.closed ? 'closed' : `${h.open}-${h.close}`\<close>
  for each weekday. A missing key makes \<open>h\<close> undefined and \<open>h.closed\<close> throw a TypeError
  (\<open>None\<close>). When the field already holds the compact strings (the form was submitted
  before), \<open>h\<close> is a string, whose \<open>closed\<close>, \<open>open\<close> and \<open>close\<close> are all undefined.
\<close>

definition compact_entry :: "day_hours \<Rightarrow> string" where
  "compact_entry h = (if closed h then ''closed'' else open_time h @ ''-'' @ close_time h)"

fun compact_loop :: "hours_value \<Rightarrow> string list \<Rightarrow> (string \<rightharpoonup> string) \<Rightarrow> (string \<rightharpoonup> string) option" where
  "compact_loop hv [] hrs = Some hrs"
| "compact_loop hv (d # ds) hrs =
     (let k = toLowerCase d
      in case hv of
           HoursObj obj \<Rightarrow>
             (case obj k of
                None \<Rightarrow> None
              | Some h \<Rightarrow> compact_loop hv ds (hrs(k \<mapsto> compact_entry h)))
         | HoursCompact c \<Rightarrow>
             (case c k of
                None \<Rightarrow> None
              | Some t \<Rightarrow> compact_loop hv ds (hrs(k \<mapsto> ''undefined-undefined''))))"

definition compact_hours :: "hours_value \<Rightarrow> (string \<rightharpoonup> string) option" where
  "compact_hours hv = compact_loop hv DAYS Map.empty"

text \<open>The compact object as \<open>toHoursObj\<close> receives it back: every value is a string.\<close>

definition as_raw :: "(string \<rightharpoonup> string) \<Rightarrow> raw_hours" where
  "as_raw hrs = RawObject (\<lambda>k. map_option JStr (hrs k))"

subsection \<open>The form state\<close>

text \<open>
  The \<open>form\<close> object. \<open>latitude\<close>, \<open>longitude\<close> and \<open>radius_km\<close> hold a stored number, the
  string typed into the input, or \<open>null\<close>; \<open>boundary\<close> is \<open>null\<close> or the text
  \<open>JSON.stringify\<close> made of the drawn shape.
\<close>

record form =
  form_id :: jsval
  name :: string
  latitude :: jsval
  longitude :: jsval
  radius_km :: jsval
  boundary :: "string option"
  form_approved :: bool
  contact_email :: string
  contact_phone :: string
  donate_url :: string
  website_url :: string
  facebook_url :: string
  instagram_url :: string
  twitter_url :: string
  logo_url :: string
  services :: "string list"
  opening_hours :: hours_value

text \<open>The component's state: the form, the caregiver ids ticked, and the helpers of the UI.\<close>

record sanctuary_form =
  form :: form
  assigned :: "string list"
  mode :: string
  address :: string
  searching :: bool
  drawOpen :: bool
  form_alerts :: "string list"

subsection \<open>Submitting\<close>

datatype 'a submit_outcome =
    Alerted string
  | TypeError
  | Saved 'a "string list"

text \<open>
  \<open>handleSubmit\<close>: what \<open>onSave\<close> is called with, or the alert shown instead. The mode is
  compared with \<open>'radius'\<close>; any other value takes the polygon branch.
\<close>

definition handleSubmit :: "sanctuary_form \<Rightarrow> form submit_outcome" where
  "handleSubmit st =
     (let f = form st in
      if trim (name f) = [] then Alerted ''Name required''
      else if \<not> truthy (latitude f) \<or> \<not> truthy (longitude f) then Alerted ''Location required''
      else
        case (if mode st = ''radius''
              then (if \<not> truthy (radius_km f) then Inl ''Radius required''
                    else Inr (f\<lparr>boundary := None\<rparr>))
              else (if \<not> truthy_text (boundary f) then Inl ''Draw polygon first''
                    else Inr (f\<lparr>radius_km := JNull\<rparr>))) of
          Inl msg \<Rightarrow> Alerted msg
        | Inr f1 \<Rightarrow>
            (case compact_hours (opening_hours f1) of
               None \<Rightarrow> TypeError
             | Some hrs \<Rightarrow> Saved (f1\<lparr>opening_hours := HoursCompact hrs\<rparr>) (assigned st)))"

text \<open>
  \<open>handleSubmit\<close> of the earlier revision of the form, which has no area mode and no
  opening hours: the form is handed to \<open>onSave\<close> as it stands.
\<close>

definition handleSubmit_rev1 :: "sanctuary_form \<Rightarrow> form submit_outcome" where
  "handleSubmit_rev1 st =
     (let f = form st in
      if name f = [] \<or> \<not> truthy (latitude f) \<or> \<not> truthy (longitude f)
      then Alerted ''Name and location are required''
      else Saved f (assigned st))"

subsection \<open>Address search\<close>

text \<open>
  What the lookup service answers: the request or the decoding throws (or the body is
  \<open>null\<close>, so that reading \<open>data.length\<close> throws); the body has no \<open>length\<close> (an error object);
  or it is a list of hits, each with \<open>lat\<close> and \<open>lon\<close>.
\<close>

record geo_hit =
  hit_lat :: jsval
  hit_lon :: jsval

datatype geo_answer =
    Throws
  | NoLength
  | Hits "geo_hit list"

definition form_alert :: "string \<Rightarrow> sanctuary_form \<Rightarrow> sanctuary_form" where
  "form_alert msg st = st\<lparr>form_alerts := form_alerts st @ [msg]\<rparr>"

text \<open>
  \<open>geocode\<close>. \<open>toFixed6 v\<close> stands for \<open>Number(v).toFixed(6)\<close>, the language's number
  formatting.
\<close>

definition geocode :: "(jsval \<Rightarrow> string) \<Rightarrow> geo_answer \<Rightarrow> sanctuary_form \<Rightarrow> sanctuary_form" where
  "geocode toFixed6 answer st =
     (if trim (address st) = [] then st
      else
        let st1 = st\<lparr>searching := True\<rparr>;
            st2 = (case answer of
                     Throws \<Rightarrow> form_alert ''Geocoding failed'' st1
                   | NoLength \<Rightarrow> form_alert ''No result'' st1
                   | Hits [] \<Rightarrow> form_alert ''No result'' st1
                   | Hits (h # rest) \<Rightarrow>
                       st1\<lparr>form := (form st1)\<lparr>latitude := JStr (toFixed6 (hit_lat h)),
                                               longitude := JStr (toFixed6 (hit_lon h))\<rparr>\<rparr>)
        in st2\<lparr>searching := False\<rparr>)"

section \<open>The boundary drawer (components/BoundaryDrawer.js)\<close>

text \<open>
  A draw event. \<open>e.layers\<close> is the layer group of an edit event (absent otherwise), \<open>e.layer\<close>
  the layer of a creation event. A drawn layer is its outline, the list of
  (latitude, longitude) vertices.
\<close>

type_synonym latlng = "real \<times> real"

record draw_event =
  layers :: "latlng list list option"
  layer :: "latlng list option"

datatype 'g save_outcome =
    DrawTypeError
  | OnSave 'g

text \<open>
  \<open>_save\<close>: \<open>layer = e.layers.getLayers()[0] || e.layer\<close>, then \<open>onSave(layer.toGeoJSON())\<close>.
  Reading \<open>getLayers\<close> of an absent \<open>e.layers\<close> throws, and so does \<open>toGeoJSON\<close> of an
  absent layer. \<open>toGeoJSON\<close> is the map library's and a parameter here.
\<close>

definition save :: "(latlng list \<Rightarrow> 'g) \<Rightarrow> draw_event \<Rightarrow> 'g save_outcome" where
  "save toGeoJSON e =
     (case layers e of
        None \<Rightarrow> DrawTypeError
      | Some ls \<Rightarrow>
          (case (case ls of l # rest \<Rightarrow> Some l | [] \<Rightarrow> layer e) of
             None \<Rightarrow> DrawTypeError
           | Some l \<Rightarrow> OnSave (toGeoJSON l)))"

text \<open>
  The form's \<open>onSave\<close> for the drawer:
  \<open>setForm({...form, boundary: JSON.stringify(gj)}); setDrawOpen(false)\<close>.
\<close>

definition drawer_onSave :: "('g \<Rightarrow> string) \<Rightarrow> 'g \<Rightarrow> sanctuary_form \<Rightarrow> sanctuary_form" where
  "drawer_onSave JSON_stringify gj st =
     st\<lparr>form := (form st)\<lparr>boundary := Some (JSON_stringify gj)\<rparr>, drawOpen := False\<rparr>"

text \<open>
  Modelled from the spec: the map library's \<open>toGeoJSON\<close> is not part of the repository.
  The persisted geometry is a polygon document, the outer ring only, each vertex a
  [longitude, latitude] pair; the ring is closed by repeating the first vertex.
\<close>

datatype geojson = PolygonFeature "(real \<times> real) list list"

definition toGeoJSON :: "latlng list \<Rightarrow> geojson" where
  "toGeoJSON l =
     (let ring = map (\<lambda>(la, lo). (lo, la)) l
      in PolygonFeature [case ring of [] \<Rightarrow> [] | p # ps \<Rightarrow> ring @ [p]])"

section \<open>The dashboard (pages/admin.js)\<close>

datatype admin_request =
    ProfilesUpdate string string
  | SanctuariesUpdate jsval form
  | SanctuariesInsert form
  | SanctuariesDelete jsval
  | CaregiverAssignmentsDelete jsval
  | CaregiverAssignmentsInsert "(string \<times> jsval) list"

text \<open>
  The state of the page: \<open>myRole\<close> (\<open>null\<close> until the profile is read, then \<open>'admin'\<close> or
  \<open>'caregiver'\<close>), the sanctuary open in the drawer (\<open>null\<close>: closed), the refresh counter,
  the alerts shown and the requests issued to the storage so far.
\<close>

record admin =
  myRole :: "string option"
  editSanctuary :: "form option"
  refreshKey :: nat
  admin_alerts :: "string list"
  admin_issued :: "admin_request list"

definition issue :: "admin_request \<Rightarrow> admin \<Rightarrow> admin" where
  "issue r st = st\<lparr>admin_issued := admin_issued st @ [r]\<rparr>"

definition switchRole :: "string \<Rightarrow> string \<Rightarrow> admin \<Rightarrow> admin" where
  "switchRole i newRole st =
     (if myRole st \<noteq> Some ''admin'' then st
      else (issue (ProfilesUpdate i newRole) st)\<lparr>refreshKey := refreshKey st + 1\<rparr>)"

text \<open>The answer to the insert of a new sanctuary: an error message, or the new row's id.\<close>

datatype insert_answer =
    InsertError string
  | InsertData jsval

definition saveSanctuary :: "insert_answer \<Rightarrow> form \<Rightarrow> string list \<Rightarrow> admin \<Rightarrow> admin" where
  "saveSanctuary answer sanctuary assignedCaregiverIds st =
     (if myRole st \<noteq> Some ''admin'' then st
      else
        case (if truthy (form_id sanctuary)
              then Inr (form_id sanctuary,
                        issue (CaregiverAssignmentsDelete (form_id sanctuary))
                          (issue (SanctuariesUpdate (form_id sanctuary) sanctuary) st))
              else (let st1 = issue (SanctuariesInsert sanctuary) st
                    in case answer of
                         InsertError msg \<Rightarrow> Inl (st1\<lparr>admin_alerts := admin_alerts st1 @ [msg]\<rparr>)
                       | InsertData i \<Rightarrow> Inr (i, st1))) of
          Inl st' \<Rightarrow> st'
        | Inr (sid, st2) \<Rightarrow>
            (let st3 = (if assignedCaregiverIds \<noteq> []
                        then issue (CaregiverAssignmentsInsert
                                      (map (\<lambda>cid. (cid, sid)) assignedCaregiverIds)) st2
                        else st2)
             in st3\<lparr>editSanctuary := None, refreshKey := refreshKey st3 + 1\<rparr>))"

text \<open>\<open>deleteSanctuary\<close>; \<open>confirmed\<close> is the answer to the \<open>confirm\<close> dialog.\<close>

definition deleteSanctuary :: "bool \<Rightarrow> jsval \<Rightarrow> admin \<Rightarrow> admin" where
  "deleteSanctuary confirmed i st =
     (if myRole st \<noteq> Some ''admin'' then st
      else if \<not> confirmed then st
      else (issue (SanctuariesDelete i) st)\<lparr>refreshKey := refreshKey st + 1\<rparr>)"

text \<open>
  The role guard reads the viewer's role with
  \<open>from('profiles').select('role').eq('id', session.user.id).single()\<close>.
\<close>

definition profile_role :: "profile list \<Rightarrow> string \<Rightarrow> string option" where
  "profile_role ps i = map_option role (find (\<lambda>p. profile_id p = i) ps)"

section \<open>Vocabulary of the properties\<close>

text \<open>
  The keys of an opening-hours object, and the condition under which a day's entry is
  recovered from its compact string: a closed day must carry the default times, an open
  day's times must be free of the separator.
\<close>

definition week_keys :: "string set" where
  "week_keys = toLowerCase ` set DAYS"

definition keeps_times :: "day_hours \<Rightarrow> bool" where
  "keeps_times h =
     (if closed h then open_time h = ''09:00'' \<and> close_time h = ''17:00''
      else CHR ''-'' \<notin> set (open_time h) \<and> CHR ''-'' \<notin> set (close_time h))"

text \<open>The number of distinct vertices of an outline, and twice its signed (shoelace) area.\<close>

definition distinct_vertices :: "latlng list \<Rightarrow> nat" where
  "distinct_vertices l = length (remdups l)"

fun shoelace :: "latlng \<Rightarrow> latlng list \<Rightarrow> real" where
  "shoelace first [] = 0"
| "shoelace first [(x, y)] = x * snd first - fst first * y"
| "shoelace first ((x, y) # (x', y') # ps) = (x * y' - x' * y) + shoelace first ((x', y') # ps)"

definition enclosed_area2 :: "latlng list \<Rightarrow> real" where
  "enclosed_area2 l = (case l of [] \<Rightarrow> 0 | p # ps \<Rightarrow> shoelace p l)"

section \<open>Example data\<close>

definition alice :: auth_user where
  "alice = \<lparr> user_ident = ''u1'', user_email = ''alice@example.org'' \<rparr>"

definition bob :: auth_user where
  "bob = \<lparr> user_ident = ''u2'', user_email = ''bob@example.org'' \<rparr>"

definition carol :: auth_user where
  "carol = \<lparr> user_ident = ''u3'', user_email = ''carol@example.org'' \<rparr>"

definition profiles :: "profile list" where
  "profiles =
     [\<lparr> profile_id = ''u1'', profile_email = ''alice@example.org'', role = ''user'' \<rparr>,
      \<lparr> profile_id = ''u2'', profile_email = ''bob@example.org'', role = ''user'' \<rparr>,
      \<lparr> profile_id = ''u3'', profile_email = ''carol@example.org'', role = ''admin'' \<rparr>]"

definition alices_sighting :: sighting where
  "alices_sighting =
     \<lparr> sighting_id = ''s1'', s_latitude = ''38.83'', s_longitude = ''20.7'', s_notes = ''tabby'',
       behaviour = ''normal'', photo_url = None, user_id = ''u1'', visibility = ''admin'',
       created_at = 100 \<rparr>"

text \<open>The page after its initial fetch, for a signed-in user.\<close>

definition signed_in :: "auth_user \<Rightarrow> sighting list \<Rightarrow> mapview" where
  "signed_in u ss = initial_fetch (Some u) None None (MapView ss [] [] profiles)"

definition haven :: sanctuary_row where
  "haven =
     \<lparr> columns = \<lparr> zone_id = ''A'', zone_name = ''Lefkas Cat Haven'', zone_latitude = 38.8,
                     zone_longitude = 20.7, zone_radius_km = Some 5, zone_boundary = None,
                     zone_logo_url = None \<rparr>,
       approved = True \<rparr>"

definition draft :: sanctuary_row where
  "draft =
     \<lparr> columns = \<lparr> zone_id = ''B'', zone_name = ''Nidri Shelter'', zone_latitude = 38.7,
                     zone_longitude = 20.71, zone_radius_km = Some 2, zone_boundary = None,
                     zone_logo_url = None \<rparr>,
       approved = False \<rparr>"

definition week_default :: "string \<rightharpoonup> day_hours" where
  "week_default =
     [''mon'' \<mapsto> def_hours, ''tue'' \<mapsto> def_hours, ''wed'' \<mapsto> def_hours, ''thu'' \<mapsto> def_hours,
      ''fri'' \<mapsto> def_hours, ''sat'' \<mapsto> def_hours, ''sun'' \<mapsto> def_hours]"

definition compact_default :: "string \<rightharpoonup> string" where
  "compact_default =
     [''mon'' \<mapsto> ''09:00-17:00'', ''tue'' \<mapsto> ''09:00-17:00'', ''wed'' \<mapsto> ''09:00-17:00'',
      ''thu'' \<mapsto> ''09:00-17:00'', ''fri'' \<mapsto> ''09:00-17:00'', ''sat'' \<mapsto> ''09:00-17:00'',
      ''sun'' \<mapsto> ''09:00-17:00'']"

definition week_closed_monday :: "string \<rightharpoonup> day_hours" where
  "week_closed_monday =
     week_default(''mon'' \<mapsto> \<lparr> open_time = ''08:00'', close_time = ''12:00'', closed = True \<rparr>)"

definition compact_closed_monday :: "string \<rightharpoonup> string" where
  "compact_closed_monday = compact_default(''mon'' \<mapsto> ''closed'')"

text \<open>
  A sanctuary form opened on a radius sanctuary, a drawn quadrilateral with a text standing
  for its stored JSON, and the form after the mode is set to polygon and the quadrilateral
  is drawn.
\<close>

definition haven_form :: form where
  "haven_form =
     \<lparr> form_id = JStr ''A'', name = ''Lefkas Cat Haven'', latitude = JNum 38.8,
       longitude = JNum 20.7, radius_km = JNum 5, boundary = None, form_approved = True,
       contact_email = [], contact_phone = [], donate_url = [], website_url = [],
       facebook_url = [], instagram_url = [], twitter_url = [], logo_url = [],
       services = [], opening_hours = HoursObj week_default \<rparr>"

definition editing :: sanctuary_form where
  "editing =
     \<lparr> form = haven_form, assigned = [''u4''], mode = ''radius'', address = ''Nidri Lefkada Greece'',
       searching = False, drawOpen = False, form_alerts = [] \<rparr>"

definition quad :: "latlng list" where
  "quad = [(38.8, 20.7), (38.8, 20.8), (38.9, 20.8), (38.9, 20.7)]"

definition quad_text :: string where
  "quad_text = ''[[[20.7,38.8],[20.8,38.8],[20.8,38.9],[20.7,38.9],[20.7,38.8]]]''"

definition stringify_quad :: "geojson \<Rightarrow> string" where
  "stringify_quad g = quad_text"


definition switched :: sanctuary_form where
  "switched = drawer_onSave stringify_quad (toGeoJSON quad) (editing\<lparr>mode := ''polygon'', drawOpen := True\<rparr>)"



definition caregiver_page :: admin where
  "caregiver_page =
     \<lparr> myRole = Some ''caregiver'', editSanctuary = None, refreshKey = 0, admin_alerts = [],
       admin_issued = [] \<rparr>"

text \<open>Six decimals for the four-decimal strings of the example hit.\<close>

definition fixed6 :: "jsval \<Rightarrow> string" where
  "fixed6 v = (case v of JStr s \<Rightarrow> s @ ''00'' | _ \<Rightarrow> ''NaN'')"

definition nidri :: geo_hit where
  "nidri = \<lparr> hit_lat = JStr ''38.7100'', hit_lon = JStr ''20.7200'' \<rparr>"

section \<open>Properties\<close>

subsection \<open>Trimming\<close>

lemma strip_none: "find (\<lambda>w. w \<noteq> [] \<and> starts_with s w) ws = None \<Longrightarrow> strip ws s = s"
  by simp

lemma trim_unchanged:
  "find (\<lambda>w. w \<noteq> [] \<and> starts_with s w) white_space = None \<Longrightarrow>
   find (\<lambda>w. w \<noteq> [] \<and> starts_with (rev s) w) (map rev white_space) = None \<Longrightarrow> trim s = s"
  by (simp add: trim_def del: strip.simps add: strip_none)

lemma trim_examples:
  "trim ''Lefkas Cat Haven'' = ''Lefkas Cat Haven''"
  "trim ''Nidri Lefkada Greece'' = ''Nidri Lefkada Greece''"
  by (rule trim_unchanged; simp add: white_space_def starts_with_def)+

text \<open>A name made of a no-break space only is blank.\<close>

lemma trim_no_break_space: "trim [CHR 0xC2, CHR 0xA0] = []"
  by code_simp

subsection \<open>Splitting and the weekday keys\<close>

lemma split_on_nonempty: "split_on sep s \<noteq> []"
  by (induction s) (auto split: list.splits)

lemma split_on_takeWhile:
  "split_on sep s =
     takeWhile (\<lambda>c. c \<noteq> sep) s #
       (if sep \<in> set s then split_on sep (tl (dropWhile (\<lambda>c. c \<noteq> sep) s)) else [])"
proof (induction s)
  case Nil
  then show ?case by simp
next
  case (Cons c cs)
  then show ?case
    by (cases "split_on sep cs") (auto simp: split_on_nonempty)
qed

lemma split_on_two: "sep \<in> set s \<Longrightarrow> \<exists>p c rest. split_on sep s = p # c # rest"
proof -
  assume a: "sep \<in> set s"
  obtain c rest where "split_on sep (tl (dropWhile (\<lambda>c. c \<noteq> sep) s)) = c # rest"
    using split_on_nonempty by (metis list.exhaust)
  with a show ?thesis
    by (subst split_on_takeWhile) simp
qed

lemma split_on_hd: "hd (split_on sep s) = takeWhile (\<lambda>c. c \<noteq> sep) s"
  by (subst split_on_takeWhile) simp

lemma split_on_join:
  "sep \<notin> set p \<Longrightarrow> split_on sep (p @ sep # r) = p # split_on sep r"
  by (induction p) (auto simp: split_on_nonempty split: list.splits)

lemma split_on_single: "sep \<notin> set s \<Longrightarrow> split_on sep s = [s]"
  by (subst split_on_takeWhile) (auto simp: takeWhile_eq_all_conv)

lemma takeWhile_free: "takeWhile (\<lambda>c. c \<noteq> sep) s = s \<Longrightarrow> sep \<notin> set s"
  by (metis (mono_tags, lifting) set_takeWhileD)

lemma split_on_compact:
  assumes "split_on sep (a @ sep # b) = p # c # rest"
  shows "(p = a \<and> c = b) \<longleftrightarrow> (sep \<notin> set a \<and> sep \<notin> set b)"
proof
  assume free: "sep \<notin> set a \<and> sep \<notin> set b"
  then have "split_on sep (a @ sep # b) = [a, b]"
    by (simp add: split_on_join split_on_single)
  with assms show "p = a \<and> c = b" by simp
next
  assume eq: "p = a \<and> c = b"
  have "p = takeWhile (\<lambda>c. c \<noteq> sep) (a @ sep # b)"
    using assms split_on_hd [of sep "a @ sep # b"] by simp
  then have "set p \<subseteq> {c. c \<noteq> sep}"
    by (auto dest: set_takeWhileD)
  with eq have a: "sep \<notin> set a" by auto
  then have "split_on sep (a @ sep # b) = a # split_on sep b"
    by (rule split_on_join)
  with assms have "hd (split_on sep b) = c" by simp
  with eq have "takeWhile (\<lambda>c. c \<noteq> sep) b = b"
    by (simp add: split_on_hd)
  then have "sep \<notin> set b" by (rule takeWhile_free)
  with a show "sep \<notin> set a \<and> sep \<notin> set b" by simp
qed

lemma day_entry_compact:
  assumes "j k = Some (JStr (compact_entry h))"
  shows "day_entry P (RawObject j) k = h \<longleftrightarrow> keeps_times h"
proof (cases "closed h")
  case True
  then show ?thesis
    using assms by (cases h) (auto simp: day_entry_def compact_entry_def keeps_times_def def_hours_def)
next
  case False
  obtain a b where h: "h = \<lparr> open_time = a, close_time = b, closed = False \<rparr>"
    using False by (cases h) auto
  have v: "compact_entry h = a @ CHR ''-'' # b"
    by (simp add: h compact_entry_def)
  have ne: "a @ CHR ''-'' # b \<noteq> ''closed''"
  proof
    assume "a @ CHR ''-'' # b = ''closed''"
    then have "CHR ''-'' \<in> set ''closed''" by (metis in_set_conv_decomp)
    then show False by simp
  qed
  obtain p c rest where sp: "split_on (CHR ''-'') (a @ CHR ''-'' # b) = p # c # rest"
    using split_on_two [of "CHR ''-''" "a @ CHR ''-'' # b"] by auto
  have "day_entry P (RawObject j) k = \<lparr> open_time = p, close_time = c, closed = False \<rparr>"
    using assms ne sp by (simp add: day_entry_def v)
  then show ?thesis
    using split_on_compact [OF sp] by (auto simp: h keeps_times_def)
qed

lemma toHoursObj_loop_eq:
  "toHoursObj_loop P raw ds out =
     (\<lambda>k. if k \<in> toLowerCase ` set ds then Some (day_entry P raw k) else out k)"
  by (induction ds arbitrary: out) (auto simp: Let_def fun_eq_iff)

lemma compact_loop_obj:
  "compact_loop (HoursObj obj) ds hrs =
     (if \<forall>d\<in>set ds. obj (toLowerCase d) \<noteq> None
      then Some (\<lambda>k. if k \<in> toLowerCase ` set ds then map_option compact_entry (obj k) else hrs k)
      else None)"
  by (induction ds arbitrary: hrs) (auto simp: Let_def fun_eq_iff split: option.splits)

lemma lower_days:
  "toLowerCase ''Mon'' = ''mon''" "toLowerCase ''Tue'' = ''tue''" "toLowerCase ''Wed'' = ''wed''"
  "toLowerCase ''Thu'' = ''thu''" "toLowerCase ''Fri'' = ''fri''" "toLowerCase ''Sat'' = ''sat''"
  "toLowerCase ''Sun'' = ''sun''"
  by code_simp+

lemma week_keys_eq: "week_keys = {''mon'', ''tue'', ''wed'', ''thu'', ''fri'', ''sat'', ''sun''}"
  by (simp add: week_keys_def DAYS_def lower_days)

lemma compact_week_default: "compact_hours (HoursObj week_default) = Some compact_default"
  by (simp add: compact_hours_def DAYS_def lower_days week_default_def compact_default_def
        compact_entry_def def_hours_def)

lemma dom_week_default: "dom week_default = week_keys"
  by (auto simp: week_default_def week_keys_eq)

subsection \<open>Deleting a sighting\<close>

lemma profile_role_examples: "profile_role profiles ''u3'' = Some ''admin''" "profile_role profiles ''u2'' = Some ''user''"
  by (simp_all add: profile_role_def profiles_def)

lemma handleDelete_issues_both:
  "user w = Some u \<Longrightarrow> rsn \<noteq> [] \<Longrightarrow>
   issued (handleDelete (Some rsn) log_err del_err s w) =
     issued w @ [DeletionLogsInsert \<lparr> log_sighting_id = sighting_id s, log_user_id = user_ident u, reason = rsn \<rparr>,
                 SightingsDelete (sighting_id s)]"
  by (simp add: handleDelete_def deletion_logs_insert_def sightings_delete_def Let_def)

lemma handleDelete_ignores_log_error:
  "user w = Some u \<Longrightarrow> rsn \<noteq> [] \<Longrightarrow>
   tbl_sightings (handleDelete (Some rsn) log_err None s w) =
     filter (\<lambda>row. sighting_id row \<noteq> sighting_id s) (tbl_sightings w) \<and>
   sightings (handleDelete (Some rsn) log_err del_err s w) =
     filter (\<lambda>row. sighting_id row \<noteq> sighting_id s) (sightings w)"
  by (simp add: handleDelete_def deletion_logs_insert_def sightings_delete_def Let_def)

lemma handleDelete_rev1_aborts:
  "log_err \<noteq> None \<Longrightarrow>
   tbl_sightings (handleDelete_rev1 p log_err del_err s w) = tbl_sightings w \<and>
   sightings (handleDelete_rev1 p log_err del_err s w) = sightings w \<and>
   filter (\<lambda>r. r = SightingsDelete (sighting_id s)) (issued (handleDelete_rev1 p log_err del_err s w))
     = filter (\<lambda>r. r = SightingsDelete (sighting_id s)) (issued w)"
  by (auto simp: handleDelete_rev1_def deletion_logs_insert_def sightings_delete_def Let_def alert_def split: option.splits)

lemma signed_in_alice: "signed_in alice [alices_sighting] =
  (MapView [alices_sighting] [] [] profiles)\<lparr>user := Some alice, sightings := [alices_sighting]\<rparr>"
  by (simp add: signed_in_def initial_fetch_def select_sightings_def select_approved_def MapView_def Let_def)

text \<open>
  C1. Every deletion attempt writes the audit-log record (sighting id, user id, reason)
  before it deletes the sighting row, and a failed audit-log write leaves the sighting in
  place. The earlier revision of \<open>handleDelete\<close> does so (\<open>handleDelete_rev1_aborts\<close>). The
  current one issues both requests in this order (\<open>handleDelete_issues_both\<close>) but does not
  look at the answer to the first (\<open>handleDelete_ignores_log_error\<close>): below, Alice deletes
  her sighting, the insert into \<open>deletion_logs\<close> is refused, and the sighting is deleted all
  the same, from the table and from the page, with no audit record written.
\<close>

theorem handleDelete_deletes_without_log:
  "tbl_sightings (signed_in alice [alices_sighting]) = [alices_sighting] \<and>
   tbl_sightings (handleDelete (Some ''duplicate'') (Some ''permission denied'') None alices_sighting
       (signed_in alice [alices_sighting])) = [] \<and>
   tbl_deletion_logs (handleDelete (Some ''duplicate'') (Some ''permission denied'') None alices_sighting
       (signed_in alice [alices_sighting])) = [] \<and>
   sightings (handleDelete (Some ''duplicate'') (Some ''permission denied'') None alices_sighting
       (signed_in alice [alices_sighting])) = [] \<and>
   issued (handleDelete (Some ''duplicate'') (Some ''permission denied'') None alices_sighting
       (signed_in alice [alices_sighting])) =
     [DeletionLogsInsert \<lparr> log_sighting_id = ''s1'', log_user_id = ''u1'', reason = ''duplicate'' \<rparr>,
      SightingsDelete ''s1'']"
  unfolding signed_in_alice
  by (simp add: handleDelete_def deletion_logs_insert_def sightings_delete_def
        MapView_def Let_def alice_def alices_sighting_def)

subsection \<open>Who may delete\<close>

text \<open>
  C2. For every sighting and every viewer, \<open>canDelete\<close> holds exactly when the viewer's id
  is the sighting's owner id; it is false for every non-owner whatever the role, Admin
  included (the role is not consulted).
\<close>

theorem canDelete_owner_only:
  "(canDelete s viewer \<longleftrightarrow> map_option user_ident viewer = Some (user_id s)) \<and>
   (\<forall>u ps. profile_role ps (user_ident u) = Some ''admin'' \<and> user_ident u \<noteq> user_id s
       \<longrightarrow> \<not> canDelete s (Some u))"
  by (auto simp: canDelete_def split: option.splits)

theorem canDelete_owner_only_witness:
  "profile_role profiles (user_ident carol) = Some ''admin'' \<and>
   user_ident carol \<noteq> user_id alices_sighting \<and>
   \<not> canDelete alices_sighting (Some carol) \<and>
   canDelete alices_sighting (Some alice) \<and>
   \<not> canDelete alices_sighting None"
  using canDelete_owner_only [of alices_sighting "Some carol"]
    canDelete_owner_only [of alices_sighting "Some alice"]
    canDelete_owner_only [of alices_sighting None]
  by (simp add: carol_def alice_def alices_sighting_def profile_role_examples)

subsection \<open>Which sightings are shown\<close>



subsection \<open>Which sanctuaries are shown\<close>

text \<open>
  C7. The zones and the sanctuary markers of the public map come from approved rows only:
  each is the projection of a row with \<open>approved = true\<close>, and, ids being unique, no
  unapproved sanctuary's id occurs among them.
\<close>

theorem only_approved_sanctuaries_fetched:
  "(\<forall>z\<in>set (zones (initial_fetch me s_err z_err (MapView ss ls zs ps))).
       \<exists>r\<in>set zs. approved r \<and> columns r = z) \<and>
   (\<forall>m\<in>set (sanctuaries (initial_fetch me s_err z_err (MapView ss ls zs ps))).
       \<exists>r\<in>set zs. approved r \<and> to_marker (columns r) = m) \<and>
   (distinct (map (\<lambda>r. zone_id (columns r)) zs) \<longrightarrow>
      (\<forall>r\<in>set zs. \<not> approved r \<longrightarrow>
         zone_id (columns r) \<notin> zone_id ` set (zones (initial_fetch me s_err z_err (MapView ss ls zs ps))) \<and>
         zone_id (columns r) \<notin> marker_id ` set (sanctuaries (initial_fetch me s_err z_err (MapView ss ls zs ps)))))"
proof -
  let ?w = "initial_fetch me s_err z_err (MapView ss ls zs ps)"
  have z: "zones ?w = (if z_err = None then map columns (filter approved zs) else [])"
    by (simp add: initial_fetch_def MapView_def select_sightings_def select_approved_def Let_def
          split: option.splits)
  have m: "sanctuaries ?w = map to_marker (zones ?w)"
    by (simp add: initial_fetch_def MapView_def select_sightings_def select_approved_def Let_def
          split: option.splits)
  have a: "\<forall>z\<in>set (zones ?w). \<exists>r\<in>set zs. approved r \<and> columns r = z"
    by (auto simp: z)
  have b: "\<forall>m\<in>set (sanctuaries ?w). \<exists>r\<in>set zs. approved r \<and> to_marker (columns r) = m"
    using a by (auto simp: m)
  have c: "zone_id (columns r) \<notin> zone_id ` set (zones ?w)"
    if d: "distinct (map (\<lambda>r. zone_id (columns r)) zs)" and r: "r \<in> set zs" "\<not> approved r" for r
  proof
    assume "zone_id (columns r) \<in> zone_id ` set (zones ?w)"
    then obtain r' where r': "r' \<in> set zs" "approved r'" "zone_id (columns r') = zone_id (columns r)"
      using a by force
    from d have "inj_on (\<lambda>r. zone_id (columns r)) (set zs)"
      by (simp add: distinct_map)
    with r' r have "r' = r" by (auto dest: inj_onD)
    with r' r show False by simp
  qed
  have e: "marker_id ` set (sanctuaries ?w) = zone_id ` set (zones ?w)"
    by (force simp: m to_marker_def)
  from a b c e show ?thesis by simp
qed

theorem only_approved_sanctuaries_fetched_witness:
  "distinct (map (\<lambda>r. zone_id (columns r)) [haven, draft]) \<and>
   haven \<in> set [haven, draft] \<and> approved haven \<and>
   draft \<in> set [haven, draft] \<and> \<not> approved draft \<and>
   zones (initial_fetch (Some bob) None None (MapView [] [] [haven, draft] profiles)) = [columns haven] \<and>
   zone_id (columns draft) \<notin> zone_id ` set (zones (initial_fetch (Some bob) None None (MapView [] [] [haven, draft] profiles))) \<and>
   zone_id (columns draft) \<notin> marker_id ` set (sanctuaries (initial_fetch (Some bob) None None (MapView [] [] [haven, draft] profiles)))"
proof -
  have d: "distinct (map (\<lambda>r. zone_id (columns r)) [haven, draft])"
    by (simp add: haven_def draft_def)
  have u: "draft \<in> set [haven, draft]" "\<not> approved draft" "haven \<in> set [haven, draft]" "approved haven"
    by (simp_all add: draft_def haven_def)
  have z: "zones (initial_fetch (Some bob) None None (MapView [] [] [haven, draft] profiles)) = [columns haven]"
    by (simp add: initial_fetch_def select_sightings_def select_approved_def MapView_def Let_def
          haven_def draft_def)
  from only_approved_sanctuaries_fetched [of "Some bob" None None "[]" "[]" "[haven, draft]" profiles] d u z
  show ?thesis by blast
qed

subsection \<open>Submitting the sanctuary form\<close>

lemma handleSubmit_editing:
  "handleSubmit editing = Saved (haven_form\<lparr>opening_hours := HoursCompact compact_default\<rparr>) [''u4'']"
  by (simp add: handleSubmit_def editing_def haven_form_def trim_examples
        compact_week_default Let_def)

lemma handleSubmit_switched:
  "handleSubmit switched =
     Saved (haven_form\<lparr>boundary := Some quad_text, radius_km := JNull,
                       opening_hours := HoursCompact compact_default\<rparr>) [''u4'']"
  by (simp add: handleSubmit_def switched_def drawer_onSave_def stringify_quad_def editing_def
        haven_form_def quad_text_def trim_examples compact_week_default Let_def)

text \<open>
  C3. Whenever the form is saved, exactly one geometry is set in the saved record: in
  radius mode its \<open>boundary\<close> is \<open>null\<close> (and its radius is set), in polygon mode its
  \<open>radius_km\<close> is \<open>null\<close> (and its boundary is set); never both, never neither.
\<close>

theorem saved_form_has_one_geometry:
  assumes "handleSubmit st = Saved f' ids"
  shows "(mode st = ''radius'' \<longrightarrow> boundary f' = None \<and> truthy (radius_km f')) \<and>
         (mode st = ''polygon'' \<longrightarrow> radius_km f' = JNull \<and> truthy_text (boundary f')) \<and>
         (radius_km f' = JNull) \<noteq> (boundary f' = None) \<and>
         truthy (radius_km f') \<noteq> truthy_text (boundary f')"
proof -
  have t: "truthy_text v \<Longrightarrow> v \<noteq> None" for v
    by (cases v) auto
  have n: "truthy v \<Longrightarrow> v \<noteq> JNull" for v
    by (cases v) auto
  show ?thesis
  proof (cases "mode st = ''radius''")
    case True
    with assms have "boundary f' = None \<and> truthy (radius_km f')"
      by (auto simp: handleSubmit_def Let_def split: if_splits option.splits)
    with True n [of "radius_km f'"] show ?thesis by auto
  next
    case False
    with assms have "radius_km f' = JNull \<and> truthy_text (boundary f')"
      by (auto simp: handleSubmit_def Let_def split: if_splits option.splits)
    with False t [of "boundary f'"] show ?thesis by auto
  qed
qed

theorem saved_form_has_one_geometry_witness:
  "handleSubmit switched =
     Saved (haven_form\<lparr>boundary := Some quad_text, radius_km := JNull,
                       opening_hours := HoursCompact compact_default\<rparr>) [''u4''] \<and>
   mode switched = ''polygon'' \<and>
   radius_km (haven_form\<lparr>boundary := Some quad_text, radius_km := JNull,
                       opening_hours := HoursCompact compact_default\<rparr>) = JNull \<and>
   truthy_text (boundary (haven_form\<lparr>boundary := Some quad_text, radius_km := JNull,
                       opening_hours := HoursCompact compact_default\<rparr>)) \<and>
   handleSubmit editing = Saved (haven_form\<lparr>opening_hours := HoursCompact compact_default\<rparr>) [''u4''] \<and>
   mode editing = ''radius'' \<and>
   boundary (haven_form\<lparr>opening_hours := HoursCompact compact_default\<rparr>) = None \<and>
   truthy (radius_km (haven_form\<lparr>opening_hours := HoursCompact compact_default\<rparr>))"
  using saved_form_has_one_geometry [OF handleSubmit_switched]
    saved_form_has_one_geometry [OF handleSubmit_editing]
    handleSubmit_switched handleSubmit_editing
  by (simp add: switched_def drawer_onSave_def editing_def)

text \<open>
  The earlier revision of the form had no area mode and handed the form on as it stood,
  radius and boundary together.
\<close>

lemma handleSubmit_rev1_keeps_both:
  "handleSubmit_rev1 (editing\<lparr>form := haven_form\<lparr>boundary := Some quad_text\<rparr>\<rparr>)
     = Saved (haven_form\<lparr>boundary := Some quad_text\<rparr>) [''u4'']"
  by (simp add: handleSubmit_rev1_def editing_def haven_form_def)

subsection \<open>Drawing a zone\<close>




subsection \<open>Address search\<close>

text \<open>
  C10. When the address lookup fails or answers with no result, the form's latitude and
  longitude (indeed the whole form) are left as they were; the form changes only on a
  non-empty list of hits.
\<close>

theorem geocode_without_result_keeps_location:
  "(answer = Throws \<or> answer = NoLength \<or> answer = Hits [] \<longrightarrow>
      latitude (form (geocode toFixed6 answer st)) = latitude (form st) \<and>
      longitude (form (geocode toFixed6 answer st)) = longitude (form st) \<and>
      form (geocode toFixed6 answer st) = form st) \<and>
   (form (geocode toFixed6 answer st) \<noteq> form st \<longrightarrow>
      trim (address st) \<noteq> [] \<and> (\<exists>h rest. answer = Hits (h # rest)))"
  by (cases answer) (auto simp: geocode_def form_alert_def Let_def split: list.splits)

theorem geocode_without_result_keeps_location_witness:
  "latitude (form (geocode fixed6 (Hits []) editing)) = JNum 38.8 \<and>
   longitude (form (geocode fixed6 (Hits []) editing)) = JNum 20.7 \<and>
   latitude (form (geocode fixed6 Throws editing)) = JNum 38.8 \<and>
   longitude (form (geocode fixed6 Throws editing)) = JNum 20.7 \<and>
   latitude (form (geocode fixed6 NoLength editing)) = JNum 38.8 \<and>
   longitude (form (geocode fixed6 NoLength editing)) = JNum 20.7 \<and>
   form (geocode fixed6 (Hits [nidri]) editing) \<noteq> form editing \<and>
   trim (address editing) \<noteq> []"
proof -
  have l: "latitude (form (geocode fixed6 (Hits [nidri]) editing)) = JStr ''38.710000''"
    by (simp add: geocode_def editing_def trim_examples fixed6_def nidri_def Let_def)
  have "latitude (form editing) = JNum 38.8"
    by (simp add: editing_def haven_form_def)
  with l have c: "form (geocode fixed6 (Hits [nidri]) editing) \<noteq> form editing"
    by auto
  from geocode_without_result_keeps_location [of "Hits []" fixed6 editing]
    geocode_without_result_keeps_location [of Throws fixed6 editing]
    geocode_without_result_keeps_location [of NoLength fixed6 editing]
    geocode_without_result_keeps_location [of "Hits [nidri]" fixed6 editing] c
  show ?thesis
    by (simp add: editing_def haven_form_def)
qed

lemma geocode_hit_overwrites:
  "trim (address st) \<noteq> [] \<Longrightarrow>
   latitude (form (geocode toFixed6 (Hits (h # rest)) st)) = JStr (toFixed6 (hit_lat h)) \<and>
   longitude (form (geocode toFixed6 (Hits (h # rest)) st)) = JStr (toFixed6 (hit_lon h))"
  by (simp add: geocode_def Let_def)

subsection \<open>The boundary drawer\<close>



text \<open>An event without a layer group, or with an empty one and no layer, makes \<open>_save\<close> throw.\<close>

lemma save_throws_without_layer:
  "layers e = None \<or> (layers e = Some [] \<and> layer e = None) \<Longrightarrow> save to_gj e = DrawTypeError"
  by (auto simp: save_def)

text \<open>The example quadrilateral has four distinct vertices and a non-zero area.\<close>

lemma quad_is_proper: "distinct_vertices quad = 4 \<and> enclosed_area2 quad = - (1 / 50)"
  by (simp add: distinct_vertices_def enclosed_area2_def quad_def)


subsection \<open>The role gate\<close>

text \<open>
  C5. For a viewer whose role is not \<open>admin\<close>, \<open>switchRole\<close>, \<open>saveSanctuary\<close> and
  \<open>deleteSanctuary\<close> return at once: the page's state is unchanged and no request (profile
  update, sanctuary insert, update or delete, caregiver-assignment change) is issued.
\<close>

theorem role_gate_rejects_without_effect:
  "myRole st \<noteq> Some ''admin'' \<Longrightarrow>
     switchRole i newRole st = st \<and>
     saveSanctuary answer sanctuary ids st = st \<and>
     deleteSanctuary confirmed j st = st \<and>
     admin_issued (switchRole i newRole st) = admin_issued st \<and>
     admin_issued (saveSanctuary answer sanctuary ids st) = admin_issued st \<and>
     admin_issued (deleteSanctuary confirmed j st) = admin_issued st"
  by (simp add: switchRole_def saveSanctuary_def deleteSanctuary_def)

theorem role_gate_rejects_without_effect_witness:
  "myRole caregiver_page \<noteq> Some ''admin'' \<and>
   switchRole ''u2'' ''admin'' caregiver_page = caregiver_page \<and>
   saveSanctuary (InsertData (JStr ''B'')) haven_form [''u4''] caregiver_page = caregiver_page \<and>
   deleteSanctuary True (JStr ''A'') caregiver_page = caregiver_page \<and>
   admin_issued (switchRole ''u2'' ''admin'' caregiver_page) = [] \<and>
   admin_issued (saveSanctuary (InsertData (JStr ''B'')) haven_form [''u4''] caregiver_page) = [] \<and>
   admin_issued (deleteSanctuary True (JStr ''A'') caregiver_page) = []"
proof -
  have r: "myRole caregiver_page \<noteq> Some ''admin''"
    by (simp add: caregiver_page_def)
  have e: "admin_issued caregiver_page = []"
    by (simp add: caregiver_page_def)
  from role_gate_rejects_without_effect
         [OF r, of "''u2''" "''admin''" "InsertData (JStr ''B'')" haven_form "[''u4'']" True "JStr ''A''"] r e
  show ?thesis by simp
qed

text \<open>For an administrator the requests are issued.\<close>

lemma admin_requests_are_issued:
  "myRole st = Some ''admin'' \<Longrightarrow>
     admin_issued (switchRole i newRole st) = admin_issued st @ [ProfilesUpdate i newRole] \<and>
     admin_issued (deleteSanctuary True j st) = admin_issued st @ [SanctuariesDelete j] \<and>
     (truthy (form_id sanctuary) \<longrightarrow>
        admin_issued (saveSanctuary answer sanctuary [] st) =
          admin_issued st @ [SanctuariesUpdate (form_id sanctuary) sanctuary,
                              CaregiverAssignmentsDelete (form_id sanctuary)])"
  by (simp add: switchRole_def saveSanctuary_def deleteSanctuary_def issue_def)

subsection \<open>Opening hours\<close>

text \<open>
  C9, as the code has it. For an opening-hours object with the seven weekday keys the
  conversion to the compact strings succeeds, and reading the compact object back with
  \<open>toHoursObj\<close> gives the original object exactly when every day keeps its times: an open
  day whose times hold no \<open>-\<close>, or a closed day whose times are the defaults 09:00 and
  17:00.
\<close>

theorem hours_round_trip:
  assumes keys: "dom obj = week_keys"
  shows "\<exists>hrs. compact_hours (HoursObj obj) = Some hrs \<and>
           (toHoursObj P (as_raw hrs) = obj \<longleftrightarrow> (\<forall>k h. obj k = Some h \<longrightarrow> keeps_times h))"
proof -
  let ?K = "toLowerCase ` set DAYS"
  let ?hrs = "\<lambda>k. if k \<in> ?K then map_option compact_entry (obj k) else None"
  have all: "\<forall>d\<in>set DAYS. obj (toLowerCase d) \<noteq> None"
    using keys by (auto simp: week_keys_def dom_def)
  have c: "compact_hours (HoursObj obj) = Some ?hrs"
    using all by (simp add: compact_hours_def compact_loop_obj)
  have reparse: "toHoursObj P (as_raw ?hrs) =
                (\<lambda>k. if k \<in> ?K then Some (day_entry P (as_raw ?hrs) k) else None)"
    by (simp add: toHoursObj_def toHoursObj_loop_eq)
  have entry: "(day_entry P (as_raw ?hrs) k = h) = keeps_times h" if "obj k = Some h" for k h
  proof -
    have "k \<in> ?K" using that keys by (auto simp: week_keys_def)
    then show ?thesis
      using that unfolding as_raw_def by (intro day_entry_compact) simp
  qed
  have "toHoursObj P (as_raw ?hrs) = obj \<longleftrightarrow> (\<forall>k h. obj k = Some h \<longrightarrow> keeps_times h)"
  proof
    assume eq: "toHoursObj P (as_raw ?hrs) = obj"
    show "\<forall>k h. obj k = Some h \<longrightarrow> keeps_times h"
    proof (intro allI impI)
      fix k h assume kh: "obj k = Some h"
      then have "k \<in> ?K" using keys by (auto simp: week_keys_def)
      with kh have "Some (day_entry P (as_raw ?hrs) k) = Some h"
        using fun_cong [OF eq, of k] by (simp add: reparse)
      then show "keeps_times h" using entry [OF kh] by simp
    qed
  next
    assume ok: "\<forall>k h. obj k = Some h \<longrightarrow> keeps_times h"
    show "toHoursObj P (as_raw ?hrs) = obj"
    proof
      fix k
      show "toHoursObj P (as_raw ?hrs) k = obj k"
      proof (cases "obj k")
        case None
        then have "k \<notin> ?K" using keys by (auto simp: week_keys_def)
        then show ?thesis using None by (simp add: reparse)
      next
        case (Some h)
        then have "k \<in> ?K" using keys by (auto simp: week_keys_def)
        moreover have "day_entry P (as_raw ?hrs) k = h"
          using entry [OF Some] ok Some by simp
        ultimately show ?thesis using Some by (simp add: reparse)
      qed
    qed
  qed
  with c show ?thesis by blast
qed

theorem hours_round_trip_witness:
  "dom week_default = week_keys \<and> compact_hours (HoursObj week_default) = Some compact_default \<and>
   toHoursObj (\<lambda>t. None) (as_raw compact_default) = week_default"
proof -
  have k: "dom week_default = week_keys" by (rule dom_week_default)
  have ok: "\<forall>k h. week_default k = Some h \<longrightarrow> keeps_times h"
    by (auto simp: week_default_def keeps_times_def def_hours_def split: if_splits)
  from hours_round_trip [OF k, of "\<lambda>t. None"] ok compact_week_default k
  show ?thesis by auto
qed

text \<open>
  C9 as stated fails: a Monday closed with the times 08:00 and 12:00 is written as
  \<open>closed\<close> and read back with the default times.
\<close>

theorem closed_day_times_lost:
  "compact_hours (HoursObj week_closed_monday) = Some compact_closed_monday \<and>
   toHoursObj (\<lambda>t. None) (as_raw compact_closed_monday) ''mon''
     = Some \<lparr> open_time = ''09:00'', close_time = ''17:00'', closed = True \<rparr> \<and>
   week_closed_monday ''mon'' = Some \<lparr> open_time = ''08:00'', close_time = ''12:00'', closed = True \<rparr> \<and>
   toHoursObj (\<lambda>t. None) (as_raw compact_closed_monday) \<noteq> week_closed_monday"
proof -
  have a: "compact_hours (HoursObj week_closed_monday) = Some compact_closed_monday"
    by (simp add: compact_hours_def DAYS_def lower_days week_default_def compact_default_def
        week_closed_monday_def compact_closed_monday_def compact_entry_def def_hours_def fun_upd_twist)
  have b: "toHoursObj (\<lambda>t. None) (as_raw compact_closed_monday) ''mon''
     = Some \<lparr> open_time = ''09:00'', close_time = ''17:00'', closed = True \<rparr>"
    by (simp add: toHoursObj_def toHoursObj_loop_eq DAYS_def lower_days day_entry_def as_raw_def
        compact_closed_monday_def def_hours_def)
  have c: "week_closed_monday ''mon'' = Some \<lparr> open_time = ''08:00'', close_time = ''12:00'', closed = True \<rparr>"
    by (simp add: week_closed_monday_def)
  have "toHoursObj (\<lambda>t. None) (as_raw compact_closed_monday) ''mon'' \<noteq> week_closed_monday ''mon''"
    unfolding b c by simp
  then have d: "toHoursObj (\<lambda>t. None) (as_raw compact_closed_monday) \<noteq> week_closed_monday"
    by auto
  from a b c d show ?thesis by simp
qed

end
